theory Spec2Isabelle
  imports Main "HOL-Library.Multiset" "HOL-Library.Char_ord" "HOL-Library.List_Lexorder"
    "HOL-Library.Sublist"
begin

section \<open>Data model (models.py, enums.py, schema.py)\<close>

text \<open>
  The tables of \<^verbatim>\<open>models.py\<close>. A \<^verbatim>\<open>DateTime\<close> is an integer point in time; a
  \<^verbatim>\<open>String\<close> column is a \<^typ>\<open>string\<close>. The columns \<^verbatim>\<open>kind\<close>, \<^verbatim>\<open>status\<close> and
  \<^verbatim>\<open>priority\<close> of \<^verbatim>\<open>Item\<close> are declared \<^verbatim>\<open>String\<close> and hold the value of the
  enumeration member. \<^verbatim>\<open>notes\<close> and \<^verbatim>\<open>updated_at\<close> are nullable and have no default.
\<close>

type_synonym datetime = int

record user =
  u_id :: int
  u_email :: string
  u_display_name :: string
  u_created_at :: datetime

record item =
  i_id :: int
  i_user_id :: int
  i_title :: string
  i_kind :: string
  i_status :: string
  i_priority :: string
  i_notes :: "string option"
  i_created_at :: datetime
  i_updated_at :: "datetime option"

record tag =
  t_id :: int
  t_user_id :: int
  t_name :: string

datatype ItemKind = ItemKind_book | ItemKind_article
datatype ItemStatus = ItemStatus_planned | ItemStatus_reading | ItemStatus_done
datatype ItemPriority = ItemPriority_low | ItemPriority_normal | ItemPriority_high
datatype SortField = SortField_created_at | SortField_updated_at
datatype SortOrder = SortOrder_asc | SortOrder_desc

fun ItemKind_value :: "ItemKind \<Rightarrow> string" where
  "ItemKind_value ItemKind_book = ''book''"
| "ItemKind_value ItemKind_article = ''article''"

fun ItemStatus_value :: "ItemStatus \<Rightarrow> string" where
  "ItemStatus_value ItemStatus_planned = ''planned''"
| "ItemStatus_value ItemStatus_reading = ''reading''"
| "ItemStatus_value ItemStatus_done = ''done''"

fun ItemPriority_value :: "ItemPriority \<Rightarrow> string" where
  "ItemPriority_value ItemPriority_low = ''low''"
| "ItemPriority_value ItemPriority_normal = ''normal''"
| "ItemPriority_value ItemPriority_high = ''high''"

fun SortField_value :: "SortField \<Rightarrow> string" where
  "SortField_value SortField_created_at = ''created_at''"
| "SortField_value SortField_updated_at = ''updated_at''"

fun SortOrder_value :: "SortOrder \<Rightarrow> string" where
  "SortOrder_value SortOrder_asc = ''asc''"
| "SortOrder_value SortOrder_desc = ''desc''"

text \<open>
  The database file. Each table is the list of its rows in storage order; \<^verbatim>\<open>item_tag\<close>
  holds the pairs \<open>(item_id, tag_id)\<close>. The three tables with
  \<^verbatim>\<open>sqlite_autoincrement\<close> keep the largest id they ever handed out. \<open>foreign_keys\<close> is
  SQLite's connection setting of that name: \<^verbatim>\<open>models.py\<close> creates the engine with
  \<^verbatim>\<open>create_engine\<close> alone and never sets it, so the library default (off) applies; it is
  kept as a field so that every general statement below holds under both settings.
\<close>

record db =
  users :: "user list"
  items :: "item list"
  tags :: "tag list"
  item_tag :: "(int \<times> int) list"
  seq_users :: int
  seq_items :: int
  seq_tags :: int
  foreign_keys :: bool

datatype model = User | Item | Tag

datatype error = IntegrityError

text \<open>The id of a new row of an autoincrement table: above every id seen so far.\<close>

definition next_id :: "int \<Rightarrow> int list \<Rightarrow> int" where
  "next_id seq ids = fold max ids seq + 1"

section \<open>Service layer (service.py)\<close>

text \<open>
  \<^verbatim>\<open>get_model_by_id\<close>: \<^verbatim>\<open>select(model).where(model.id == model_id)\<close>, then
  \<^verbatim>\<open>.first()\<close>. The model class is given by its id column and its table.
\<close>

definition get_model_by_id :: "int \<Rightarrow> ('r \<Rightarrow> int) \<Rightarrow> 'r list \<Rightarrow> 'r option" where
  "get_model_by_id model_id id_col rows = find (\<lambda>r. id_col r = model_id) rows"

text \<open>
  The option \<^verbatim>\<open>joinedload(Item.tags)\<close>: the tags reached from the item through
  \<^verbatim>\<open>item_tag\<close>, an association row whose tag row is missing contributing nothing.
\<close>

definition item_tags :: "db \<Rightarrow> item \<Rightarrow> tag list" where
  "item_tags d it =
     concat (map (\<lambda>(iid, tid). if iid = i_id it then filter (\<lambda>t. t_id t = tid) (tags d) else [])
                 (item_tag d))"

definition joinedload :: "db \<Rightarrow> item \<Rightarrow> item \<times> tag list" where
  "joinedload d it = (it, item_tags d it)"

text \<open>
  \<^verbatim>\<open>delete_model_by_id\<close> executes the statement \<^verbatim>\<open>DELETE FROM t WHERE id = ?\<close> and
  commits. It is a bulk delete: the relationship option
  \<^verbatim>\<open>cascade="all, delete-orphan"\<close> of \<^verbatim>\<open>User.items\<close> and \<^verbatim>\<open>User.tags\<close> acts when a
  loaded object is deleted through the session and plays no part in it. What the
  database does with referencing rows is decided by the foreign keys: \<^verbatim>\<open>items.user_id\<close>
  and \<^verbatim>\<open>tags.user_id\<close> carry no \<^verbatim>\<open>ondelete\<close>, the two columns of \<^verbatim>\<open>item_tag\<close> carry
  \<^verbatim>\<open>ondelete="CASCADE"\<close>. With the setting off nothing but the addressed row goes;
  with it on, deleting a referenced user is refused and deleting an item or a tag takes
  its association rows along.
\<close>

definition delete_model_by_id :: "int \<Rightarrow> model \<Rightarrow> db \<Rightarrow> error + db" where
  "delete_model_by_id model_id m d =
    (case m of
       User \<Rightarrow>
         if foreign_keys d \<and> (\<exists>u \<in> set (users d). u_id u = model_id)
            \<and> ((\<exists>it \<in> set (items d). i_user_id it = model_id)
               \<or> (\<exists>t \<in> set (tags d). t_user_id t = model_id))
         then Inl IntegrityError
         else Inr (d\<lparr>users := filter (\<lambda>u. u_id u \<noteq> model_id) (users d)\<rparr>)
     | Item \<Rightarrow>
         Inr (d\<lparr>items := filter (\<lambda>it. i_id it \<noteq> model_id) (items d),
                item_tag := (if foreign_keys d \<and> (\<exists>it \<in> set (items d). i_id it = model_id)
                             then filter (\<lambda>(iid, tid). iid \<noteq> model_id) (item_tag d)
                             else item_tag d)\<rparr>)
     | Tag \<Rightarrow>
         Inr (d\<lparr>tags := filter (\<lambda>t. t_id t \<noteq> model_id) (tags d),
                item_tag := (if foreign_keys d \<and> (\<exists>t \<in> set (tags d). t_id t = model_id)
                             then filter (\<lambda>(iid, tid). tid \<noteq> model_id) (item_tag d)
                             else item_tag d)\<rparr>))"

text \<open>
  Adding one object to the session and flushing it: the \<^verbatim>\<open>INSERT\<close> of one row. The row
  gets a fresh id, which the object then carries; a column with
  \<^verbatim>\<open>server_default=func.now()\<close> that is not given takes \<open>now\<close>, the database clock. The
  insert is refused when it breaks a \<^verbatim>\<open>unique\<close> constraint, or, with foreign keys on, when
  it names a user that is not there.
\<close>

definition insert_user :: "string \<Rightarrow> string \<Rightarrow> datetime \<Rightarrow> db \<Rightarrow> error + int \<times> db" where
  "insert_user em dn now d =
    (if \<exists>u \<in> set (users d). u_email u = em then Inl IntegrityError
     else let new = next_id (seq_users d) (map u_id (users d)) in
       Inr (new, d\<lparr>users := users d @ [\<lparr>u_id = new, u_email = em, u_display_name = dn,
                                          u_created_at = now\<rparr>],
                    seq_users := new\<rparr>))"

definition insert_tag :: "int \<Rightarrow> string \<Rightarrow> db \<Rightarrow> error + int \<times> db" where
  "insert_tag user_id nm d =
    (if (\<exists>t \<in> set (tags d). t_user_id t = user_id \<and> t_name t = nm)
        \<or> (foreign_keys d \<and> \<not> (\<exists>u \<in> set (users d). u_id u = user_id))
     then Inl IntegrityError
     else let new = next_id (seq_tags d) (map t_id (tags d)) in
       Inr (new, d\<lparr>tags := tags d @ [\<lparr>t_id = new, t_user_id = user_id, t_name = nm\<rparr>],
                    seq_tags := new\<rparr>))"

definition insert_item ::
  "int \<Rightarrow> string \<Rightarrow> string \<Rightarrow> string \<Rightarrow> string \<Rightarrow> string option \<Rightarrow> datetime \<Rightarrow> db \<Rightarrow> error + int \<times> db" where
  "insert_item user_id ttl knd sts prio nts created d =
    (if foreign_keys d \<and> \<not> (\<exists>u \<in> set (users d). u_id u = user_id) then Inl IntegrityError
     else let new = next_id (seq_items d) (map i_id (items d)) in
       Inr (new, d\<lparr>items := items d @ [\<lparr>i_id = new, i_user_id = user_id, i_title = ttl,
                       i_kind = knd, i_status = sts, i_priority = prio, i_notes = nts,
                       i_created_at = created, i_updated_at = None\<rparr>],
                    seq_items := new\<rparr>))"

text \<open>
  The \<^verbatim>\<open>INSERT\<close> of one row of \<^verbatim>\<open>item_tag\<close>. Both columns form the primary key, so a
  pair already present is refused, as is, with foreign keys on, a pair with a missing end.
\<close>

definition insert_item_tag :: "int \<Rightarrow> int \<Rightarrow> db \<Rightarrow> error + db" where
  "insert_item_tag item_id tag_id d =
    (if (item_id, tag_id) \<in> set (item_tag d)
        \<or> (foreign_keys d \<and> \<not> ((\<exists>x \<in> set (items d). i_id x = item_id)
                                  \<and> (\<exists>x \<in> set (tags d). t_id x = tag_id)))
     then Inl IntegrityError
     else Inr (d\<lparr>item_tag := item_tag d @ [(item_id, tag_id)]\<rparr>))"

text \<open>
  \<^verbatim>\<open>create_model\<close> at its three uses: one object made of the fields of the schema and the
  keyword arguments, added and committed. The schemas hold enumeration members; the
  columns get their values.
\<close>

record UserBaseSchema =
  email :: string
  display_name :: string

record ItemBaseSchema =
  title :: string
  kind :: ItemKind
  status :: ItemStatus
  priority :: ItemPriority
  item_notes :: "string option"

record TagBaseSchema =
  name :: string

definition create_model_User :: "UserBaseSchema \<Rightarrow> datetime \<Rightarrow> db \<Rightarrow> error + db" where
  "create_model_User schema now d =
    (case insert_user (email schema) (display_name schema) now d of
       Inl e \<Rightarrow> Inl e
     | Inr (new, d') \<Rightarrow> Inr d')"

definition create_model_Item :: "ItemBaseSchema \<Rightarrow> int \<Rightarrow> datetime \<Rightarrow> db \<Rightarrow> error + db" where
  "create_model_Item schema user_id now d =
    (case insert_item user_id (title schema) (ItemKind_value (kind schema))
            (ItemStatus_value (status schema)) (ItemPriority_value (priority schema))
            (item_notes schema) now d of
       Inl e \<Rightarrow> Inl e
     | Inr (new, d') \<Rightarrow> Inr d')"

definition create_model_Tag :: "TagBaseSchema \<Rightarrow> int \<Rightarrow> db \<Rightarrow> error + db" where
  "create_model_Tag schema user_id d =
    (case insert_tag user_id (name schema) d of
       Inl e \<Rightarrow> Inl e
     | Inr (new, d') \<Rightarrow> Inr d')"

text \<open>
  \<^verbatim>\<open>add_tag_to_item\<close>: \<^verbatim>\<open>insert(item_tag).values(item_id=item.id, tag_id=tag.id)\<close>,
  committed.
\<close>

definition add_tag_to_item :: "item \<Rightarrow> tag \<Rightarrow> db \<Rightarrow> error + db" where
  "add_tag_to_item it t d = insert_item_tag (i_id it) (t_id t) d"

text \<open>\<^verbatim>\<open>remove_tag_from_item\<close>: delete the rows of \<^verbatim>\<open>item_tag\<close> with both ids.\<close>

definition remove_tag_from_item :: "item \<Rightarrow> tag \<Rightarrow> db \<Rightarrow> db" where
  "remove_tag_from_item it t d =
     d\<lparr>item_tag := filter (\<lambda>(iid, tid). \<not> (iid = i_id it \<and> tid = t_id t)) (item_tag d)\<rparr>"

subsection \<open>The filtered search\<close>

text \<open>
  What the database does for \<^verbatim>\<open>get_filtered_items\<close>. \<open>lower\<close> is SQLite's \<^verbatim>\<open>lower()\<close>,
  which folds the letters A to Z and leaves every other character alone. It also stands
  for Python's \<^verbatim>\<open>str.lower\<close> on the sort order, where the two agree on whether the
  result is \<^verbatim>\<open>desc\<close>.
\<close>

definition lower_char :: "char \<Rightarrow> char" where
  "lower_char c =
    (case map_of (zip ''ABCDEFGHIJKLMNOPQRSTUVWXYZ'' ''abcdefghijklmnopqrstuvwxyz'') c of
       None \<Rightarrow> c
     | Some l \<Rightarrow> l)"

definition lower :: "string \<Rightarrow> string" where
  "lower s = map lower_char s"

text \<open>
  \<open>like p t\<close>: the text \<open>t\<close> matches the \<^verbatim>\<open>LIKE\<close> pattern \<open>p\<close>. In a pattern a percent
  sign matches any run of characters, an underscore any one character, and any other
  character itself; no escape character is in force.
\<close>

fun like :: "string \<Rightarrow> string \<Rightarrow> bool" where
  "like [] [] = True"
| "like [] (c # cs) = False"
| "like (p # ps) [] = (p = CHR ''%'' \<and> like ps [])"
| "like (p # ps) (c # cs) =
     (if p = CHR ''%'' then like ps (c # cs) \<or> like (p # ps) cs
      else (p = CHR ''_'' \<or> p = c) \<and> like ps cs)"

text \<open>\<^verbatim>\<open>column.ilike(pattern)\<close>, which on SQLite is \<^verbatim>\<open>lower(column) LIKE lower(pattern)\<close>.\<close>

definition ilike :: "string \<Rightarrow> string \<Rightarrow> bool" where
  "ilike txt pattern = like (lower pattern) (lower txt)"

text \<open>
  The value of a column in a row, ordered as SQLite orders values: \<^verbatim>\<open>NULL\<close> first, and
  text by its bytes.
\<close>

datatype sqlval = NullV | DateTimeV datetime | TextV string

fun sqlval_le :: "sqlval \<Rightarrow> sqlval \<Rightarrow> bool" where
  "sqlval_le NullV y = True"
| "sqlval_le (DateTimeV a) NullV = False"
| "sqlval_le (DateTimeV a) (DateTimeV b) = (a \<le> b)"
| "sqlval_le (DateTimeV a) (TextV s) = True"
| "sqlval_le (TextV s) (TextV r) = (s \<le> r)"
| "sqlval_le (TextV s) y = False"

instantiation sqlval :: linorder
begin

definition less_eq_sqlval :: "sqlval \<Rightarrow> sqlval \<Rightarrow> bool" where
  "less_eq_sqlval x y = sqlval_le x y"

definition less_sqlval :: "sqlval \<Rightarrow> sqlval \<Rightarrow> bool" where
  "less_sqlval x y = (sqlval_le x y \<and> \<not> sqlval_le y x)"

instance
proof
  fix x y z :: sqlval
  show "(x < y) = (x \<le> y \<and> \<not> y \<le> x)"
    by (simp add: less_sqlval_def less_eq_sqlval_def)
  show "x \<le> x"
    by (cases x) (simp_all add: less_eq_sqlval_def)
  show "x \<le> y \<Longrightarrow> y \<le> z \<Longrightarrow> x \<le> z"
    by (cases x; cases y; cases z) (auto simp: less_eq_sqlval_def)
  show "x \<le> y \<Longrightarrow> y \<le> x \<Longrightarrow> x = y"
    by (cases x; cases y) (auto simp: less_eq_sqlval_def)
  show "x \<le> y \<or> y \<le> x"
    by (cases x; cases y) (auto simp: less_eq_sqlval_def)
qed

end

text \<open>
  The arguments of \<^verbatim>\<open>get_filtered_items\<close>, with the defaults of its signature. The
  enumeration members that the route passes are strings to the function.
\<close>

record filter_args =
  q_status :: "string option"
  q_kind :: "string option"
  q_priority :: "string option"
  q_tag_names :: "string list option"
  q_title_substring :: "string option"
  q_created_from :: "datetime option"
  q_created_to :: "datetime option"
  q_limit :: int
  q_offset :: int
  q_sort_field :: string
  q_sort_order :: string

definition default_args :: filter_args where
  "default_args = \<lparr>q_status = None, q_kind = None, q_priority = None, q_tag_names = None,
     q_title_substring = None, q_created_from = None, q_created_to = None,
     q_limit = 20, q_offset = 0,
     q_sort_field = SortField_value SortField_created_at,
     q_sort_order = SortOrder_value SortOrder_desc\<rparr>"

text \<open>
  \<^verbatim>\<open>if x:\<close> on an optional string or list: neither \<^verbatim>\<open>None\<close> nor empty. A
  \<^verbatim>\<open>datetime\<close> is always true, so there only \<^verbatim>\<open>None\<close> is false.
\<close>

fun truthy :: "'a list option \<Rightarrow> bool" where
  "truthy None = False"
| "truthy (Some xs) = (xs \<noteq> [])"

text \<open>
  A row of the statement is an item, together with a tag when the statement joins
  \<^verbatim>\<open>Item.tags\<close>: one row for each association row of the item whose tag exists.
\<close>

type_synonym row = "item \<times> tag option"

definition from_rows :: "filter_args \<Rightarrow> db \<Rightarrow> row list" where
  "from_rows a d =
    (if truthy (q_tag_names a)
     then concat (map (\<lambda>it. map (\<lambda>t. (it, Some t)) (item_tags d it)) (items d))
     else map (\<lambda>it. (it, None)) (items d))"

text \<open>The list \<^verbatim>\<open>filters\<close>, in the order in which the function appends to it.\<close>

definition filters :: "filter_args \<Rightarrow> (row \<Rightarrow> bool) list" where
  "filters a =
     (case q_status a of Some s \<Rightarrow> if s \<noteq> [] then [\<lambda>(it, t). i_status it = s] else [] | None \<Rightarrow> [])
   @ (case q_kind a of Some s \<Rightarrow> if s \<noteq> [] then [\<lambda>(it, t). i_kind it = s] else [] | None \<Rightarrow> [])
   @ (case q_priority a of Some s \<Rightarrow> if s \<noteq> [] then [\<lambda>(it, t). i_priority it = s] else [] | None \<Rightarrow> [])
   @ (case q_title_substring a of
        Some s \<Rightarrow> if s \<noteq> [] then [\<lambda>(it, t). ilike (i_title it) (''%'' @ s @ ''%'')] else []
      | None \<Rightarrow> [])
   @ (case q_created_from a of Some f \<Rightarrow> [\<lambda>(it, t). i_created_at it \<ge> f] | None \<Rightarrow> [])
   @ (case q_created_to a of Some f \<Rightarrow> [\<lambda>(it, t). i_created_at it \<le> f] | None \<Rightarrow> [])
   @ (case q_tag_names a of
        Some ns \<Rightarrow>
          if ns \<noteq> [] then [\<lambda>(it, t). case t of Some g \<Rightarrow> t_name g \<in> set ns | None \<Rightarrow> False] else []
      | None \<Rightarrow> [])"

text \<open>
  \<^verbatim>\<open>select(Item).distinct()\<close> with the join and \<^verbatim>\<open>where(and_(*filters))\<close>: the items of
  the rows that pass every filter, each item once.
\<close>

definition matching_items :: "filter_args \<Rightarrow> db \<Rightarrow> item list" where
  "matching_items a d = remdups (map fst (filter (\<lambda>r. list_all (\<lambda>f. f r) (filters a)) (from_rows a d)))"

text \<open>\<^verbatim>\<open>sort_col_map\<close> and \<^verbatim>\<open>sort_col_map.get(sort_field, Item.created_at)\<close>.\<close>

definition created_at_col :: "item \<Rightarrow> sqlval" where
  "created_at_col it = DateTimeV (i_created_at it)"

definition updated_at_col :: "item \<Rightarrow> sqlval" where
  "updated_at_col it = (case i_updated_at it of None \<Rightarrow> NullV | Some u \<Rightarrow> DateTimeV u)"

definition priority_col :: "item \<Rightarrow> sqlval" where
  "priority_col it = TextV (i_priority it)"

definition sort_col_map :: "(string \<times> (item \<Rightarrow> sqlval)) list" where
  "sort_col_map = [(''created_at'', created_at_col), (''updated_at'', updated_at_col),
                   (''priority'', priority_col)]"

definition sort_col :: "string \<Rightarrow> item \<Rightarrow> sqlval" where
  "sort_col sort_field = (case map_of sort_col_map sort_field of Some c \<Rightarrow> c | None \<Rightarrow> created_at_col)"

text \<open>
  \<^verbatim>\<open>order_by(asc(col))\<close> and \<^verbatim>\<open>order_by(desc(col))\<close>. SQL leaves the order of rows with
  equal keys open; here they keep their order for \<^verbatim>\<open>asc\<close> and reverse it for
  \<^verbatim>\<open>desc\<close>, and no property below depends on that.
\<close>

definition order_by :: "bool \<Rightarrow> (item \<Rightarrow> sqlval) \<Rightarrow> item list \<Rightarrow> item list" where
  "order_by descending col xs = (if descending then rev (sort_key col xs) else sort_key col xs)"

text \<open>
  \<^verbatim>\<open>LIMIT lim OFFSET off\<close>: skip \<open>off\<close> rows, then keep \<open>lim\<close>. In SQLite a negative
  limit keeps every row and a negative offset skips none.
\<close>

definition limit_offset :: "int \<Rightarrow> int \<Rightarrow> 'a list \<Rightarrow> 'a list" where
  "limit_offset lim off xs = (if lim < 0 then drop (nat off) xs else take (nat lim) (drop (nat off) xs))"

text \<open>
  \<^verbatim>\<open>get_filtered_items\<close>. The limit and the offset apply to the items; the option
  \<^verbatim>\<open>joinedload(Item.tags)\<close> then gives every item of the page its tags, through a join
  of its own that the filters do not reach.
\<close>

definition get_filtered_items :: "filter_args \<Rightarrow> db \<Rightarrow> (item \<times> tag list) list" where
  "get_filtered_items a d =
    map (joinedload d)
      (limit_offset (q_limit a) (q_offset a)
        (order_by (lower (q_sort_order a) = ''desc'') (sort_col (q_sort_field a))
          (matching_items a d)))"

section \<open>HTTP routes (routers)\<close>

text \<open>
  A response is its status code and its body. \<^verbatim>\<open>HTTPException(status_code, detail)\<close>
  is the response with that code and the body \<open>Detail\<close>. A handler that returns a value
  answers 200; the three delete handlers set 204 on the response and return nothing.
  \<open>RequestValidationError\<close> is the body of the framework's own 422 answer to a request
  whose parameters it cannot bind, \<open>InternalServerError\<close> that of its 500 answer to a
  returned value that does not fit the response model.
\<close>

datatype body =
    Null
  | Detail string
  | Str string
  | RequestValidationError
  | InternalServerError
  | UserWithIdSchema user
  | TagWithIdSchema tag
  | ItemWithTagsSchema "item \<times> tag list"
  | ItemWithTagsList "(item \<times> tag list) list"
  | UserEcho UserBaseSchema
  | ItemEcho ItemBaseSchema
  | TagEcho TagBaseSchema

type_synonym response = "nat \<times> body"

subsection \<open>user_router.py\<close>

definition get_user_by_id :: "int \<Rightarrow> db \<Rightarrow> response" where
  "get_user_by_id user_id d =
    (case get_model_by_id user_id u_id (users d) of
       None \<Rightarrow> (404, Detail ''User not found'')
     | Some u \<Rightarrow> (200, UserWithIdSchema u))"

definition create_user :: "UserBaseSchema \<Rightarrow> datetime \<Rightarrow> db \<Rightarrow> response \<times> db" where
  "create_user u now d =
    (case create_model_User u now d of
       Inl IntegrityError \<Rightarrow> ((400, Detail ''User already exists''), d)
     | Inr d' \<Rightarrow> ((200, UserEcho u), d'))"

text \<open>
  The three delete handlers. Each catches \<^verbatim>\<open>Exception\<close> and answers 400 with the text
  of the exception, which is not modelled and stands as \<open>''IntegrityError''\<close>.
\<close>

definition delete_user :: "int \<Rightarrow> db \<Rightarrow> response \<times> db" where
  "delete_user user_id d =
    (case delete_model_by_id user_id User d of
       Inr d' \<Rightarrow> ((204, Null), d')
     | Inl e \<Rightarrow> ((400, Detail ''IntegrityError''), d))"

subsection \<open>item_router.py\<close>

definition get_item_by_id :: "int \<Rightarrow> db \<Rightarrow> response" where
  "get_item_by_id item_id d =
    (case get_model_by_id item_id i_id (items d) of
       None \<Rightarrow> (404, Detail ''Item not found'')
     | Some it \<Rightarrow> (200, ItemWithTagsSchema (joinedload d it)))"

record ItemSearchParams =
  sp_status :: "ItemStatus option"
  sp_kind :: "ItemKind option"
  sp_priority :: "ItemPriority option"
  sp_tag_names :: "string list option"
  sp_title_substring :: "string option"
  sp_created_from :: "datetime option"
  sp_created_to :: "datetime option"
  sp_limit :: int
  sp_offset :: int
  sp_sort_field :: SortField
  sp_sort_order :: SortOrder

definition search_items :: "ItemSearchParams \<Rightarrow> db \<Rightarrow> response" where
  "search_items p d =
    (200, ItemWithTagsList (get_filtered_items
       \<lparr>q_status = map_option ItemStatus_value (sp_status p),
        q_kind = map_option ItemKind_value (sp_kind p),
        q_priority = map_option ItemPriority_value (sp_priority p),
        q_tag_names = sp_tag_names p,
        q_title_substring = sp_title_substring p,
        q_created_from = sp_created_from p,
        q_created_to = sp_created_to p,
        q_limit = sp_limit p,
        q_offset = sp_offset p,
        q_sort_field = SortField_value (sp_sort_field p),
        q_sort_order = SortOrder_value (sp_sort_order p)\<rparr> d))"

definition create_item :: "ItemBaseSchema \<Rightarrow> int \<Rightarrow> datetime \<Rightarrow> db \<Rightarrow> response \<times> db" where
  "create_item it user_id now d =
    (case get_model_by_id user_id u_id (users d) of
       None \<Rightarrow> ((404, Detail ''User not found''), d)
     | Some u \<Rightarrow>
        (case create_model_Item it user_id now d of
           Inl IntegrityError \<Rightarrow> ((400, Detail ''Item already exists''), d)
         | Inr d' \<Rightarrow> ((200, ItemEcho it), d')))"

definition delete_item :: "int \<Rightarrow> db \<Rightarrow> response \<times> db" where
  "delete_item item_id d =
    (case delete_model_by_id item_id Item d of
       Inr d' \<Rightarrow> ((204, Null), d')
     | Inl e \<Rightarrow> ((400, Detail ''IntegrityError''), d))"

subsection \<open>tag_router.py\<close>

definition get_tag_by_id :: "int \<Rightarrow> db \<Rightarrow> response" where
  "get_tag_by_id tag_id d =
    (case get_model_by_id tag_id t_id (tags d) of
       None \<Rightarrow> (404, Detail ''Tag not found'')
     | Some t \<Rightarrow> (200, TagWithIdSchema t))"

definition create_tag :: "int \<Rightarrow> TagBaseSchema \<Rightarrow> db \<Rightarrow> response \<times> db" where
  "create_tag user_id t d =
    (case get_model_by_id user_id u_id (users d) of
       None \<Rightarrow> ((404, Detail ''User not found''), d)
     | Some u \<Rightarrow>
        (case create_model_Tag t user_id d of
           Inl IntegrityError \<Rightarrow> ((400, Detail ''Tag already exists''), d)
         | Inr d' \<Rightarrow> ((200, TagEcho t), d')))"

text \<open>
  The last line of both link handlers fetches the item again and returns it; a missing
  item there would not fit \<^verbatim>\<open>ItemWithTagsSchema\<close>.
\<close>

definition refetch_item :: "int \<Rightarrow> db \<Rightarrow> response" where
  "refetch_item item_id d =
    (case get_model_by_id item_id i_id (items d) of
       None \<Rightarrow> (500, InternalServerError)
     | Some it \<Rightarrow> (200, ItemWithTagsSchema (joinedload d it)))"

definition link_tag_item :: "int \<Rightarrow> int \<Rightarrow> db \<Rightarrow> response \<times> db" where
  "link_tag_item tag_id item_id d =
    (case get_model_by_id tag_id t_id (tags d) of
       None \<Rightarrow> ((404, Detail ''Tag not found''), d)
     | Some t \<Rightarrow>
        (case get_model_by_id item_id i_id (items d) of
           None \<Rightarrow> ((404, Detail ''Item not found''), d)
         | Some it \<Rightarrow>
            (case add_tag_to_item it t d of
               Inl IntegrityError \<Rightarrow> ((400, Detail ''Item already exists''), d)
             | Inr d' \<Rightarrow> (refetch_item item_id d', d'))))"

definition unlink_tag_item :: "int \<Rightarrow> int \<Rightarrow> db \<Rightarrow> response \<times> db" where
  "unlink_tag_item tag_id item_id d =
    (case get_model_by_id tag_id t_id (tags d) of
       None \<Rightarrow> ((404, Detail ''Tag not found''), d)
     | Some t \<Rightarrow>
        (case get_model_by_id item_id i_id (items d) of
           None \<Rightarrow> ((404, Detail ''Item not found''), d)
         | Some it \<Rightarrow>
            (let d' = remove_tag_from_item it t d in (refetch_item item_id d', d'))))"

definition delete_tag :: "int \<Rightarrow> db \<Rightarrow> response \<times> db" where
  "delete_tag tag_id d =
    (case delete_model_by_id tag_id Tag d of
       Inr d' \<Rightarrow> ((204, Null), d')
     | Inl e \<Rightarrow> ((400, Detail ''IntegrityError''), d))"

subsection \<open>The seed data (service.py, router_for_test.py)\<close>

text \<open>
  \<^verbatim>\<open>create_seed_data\<close> works in one session with three commits: the two users, the
  three tags, then the three items with their four association rows. An insert that is
  refused raises out of the function and the session closes, which undoes what was
  written since the last commit; what earlier commits wrote stays. The result is the
  exception, if any, and the database as committed. The clock is read five times: by the
  database for the \<^verbatim>\<open>created_at\<close> of each user, and by \<^verbatim>\<open>datetime.utcnow()\<close> for each
  item.
\<close>

record seed_clock =
  now_user1 :: datetime
  now_user2 :: datetime
  utcnow_item1 :: datetime
  utcnow_item2 :: datetime
  utcnow_item3 :: datetime

definition seed_users :: "seed_clock \<Rightarrow> db \<Rightarrow> error + (int \<times> int) \<times> db" where
  "seed_users ck d =
    (case insert_user ''alice@example.com'' ''Alice'' (now_user1 ck) d of
       Inl e \<Rightarrow> Inl e
     | Inr (user1, da) \<Rightarrow>
    (case insert_user ''bob@example.com'' ''Bob'' (now_user2 ck) da of
       Inl e \<Rightarrow> Inl e
     | Inr (user2, db) \<Rightarrow> Inr ((user1, user2), db)))"

definition seed_tags :: "int \<Rightarrow> int \<Rightarrow> db \<Rightarrow> error + (int \<times> int \<times> int) \<times> db" where
  "seed_tags user1 user2 d =
    (case insert_tag user1 ''urgent'' d of
       Inl e \<Rightarrow> Inl e
     | Inr (tag1, da) \<Rightarrow>
    (case insert_tag user1 ''work'' da of
       Inl e \<Rightarrow> Inl e
     | Inr (tag2, db) \<Rightarrow>
    (case insert_tag user2 ''personal'' db of
       Inl e \<Rightarrow> Inl e
     | Inr (tag3, dc) \<Rightarrow> Inr ((tag1, tag2, tag3), dc))))"

definition seed_items :: "seed_clock \<Rightarrow> int \<Rightarrow> int \<Rightarrow> int \<times> int \<times> int \<Rightarrow> db \<Rightarrow> error + db" where
  "seed_items ck user1 user2 tgs d =
    (case tgs of (tag1, tag2, tag3) \<Rightarrow>
    (case insert_item user1 ''Finish report'' (ItemKind_value ItemKind_book)
            (ItemStatus_value ItemStatus_reading) (ItemPriority_value ItemPriority_high)
            (Some ''Due next week'') (utcnow_item1 ck) d of
       Inl e \<Rightarrow> Inl e
     | Inr (item1, da) \<Rightarrow>
    (case insert_item user1 ''Buy groceries'' (ItemKind_value ItemKind_book)
            (ItemStatus_value ItemStatus_reading) (ItemPriority_value ItemPriority_high)
            (Some ''Milk, Bread, Eggs'') (utcnow_item2 ck) da of
       Inl e \<Rightarrow> Inl e
     | Inr (item2, db) \<Rightarrow>
    (case insert_item user2 ''Call mom'' (ItemKind_value ItemKind_book)
            (ItemStatus_value ItemStatus_reading) (ItemPriority_value ItemPriority_high)
            (Some ''Sunday evening'') (utcnow_item3 ck) db of
       Inl e \<Rightarrow> Inl e
     | Inr (item3, dc) \<Rightarrow>
    (case insert_item_tag item1 tag1 dc of
       Inl e \<Rightarrow> Inl e
     | Inr dd \<Rightarrow>
    (case insert_item_tag item1 tag2 dd of
       Inl e \<Rightarrow> Inl e
     | Inr de \<Rightarrow>
    (case insert_item_tag item2 tag2 de of
       Inl e \<Rightarrow> Inl e
     | Inr df \<Rightarrow> insert_item_tag item3 tag3 df)))))))"

definition create_seed_data :: "seed_clock \<Rightarrow> db \<Rightarrow> error option \<times> db" where
  "create_seed_data ck d =
    (case seed_users ck d of
       Inl e \<Rightarrow> (Some e, d)
     | Inr ((user1, user2), d1) \<Rightarrow>
    (case seed_tags user1 user2 d1 of
       Inl e \<Rightarrow> (Some e, d1)
     | Inr (tgs, d2) \<Rightarrow>
    (case seed_items ck user1 user2 tgs d2 of
       Inl e \<Rightarrow> (Some e, d2)
     | Inr d3 \<Rightarrow> (None, d3))))"

definition create_data_for_tests :: "seed_clock \<Rightarrow> db \<Rightarrow> response \<times> db" where
  "create_data_for_tests ck d =
    (case create_seed_data ck d of
       (None, d') \<Rightarrow> ((200, Str ''success''), d')
     | (Some IntegrityError, d') \<Rightarrow> ((400, Detail ''Item already exists''), d'))"

subsection \<open>How a request reaches a handler\<close>

text \<open>
  A handler with one integer parameter (the \<^verbatim>\<open>Response\<close> object that the delete
  handlers also take is supplied by the framework), registered under a path with one
  parameter in braces. The framework takes the handler's parameter from the path when the path
  declares a parameter of that name, and from the query string otherwise; a parameter
  without default that the request does not supply is answered with 422 before the
  handler runs. \<open>path_name\<close> is the name in braces in the decorator, \<open>param\<close> the name
  in the handler's signature, \<open>path_value\<close> what the request's URL has in that place and
  \<open>query\<close> its query string.
\<close>

definition path_operation ::
  "string \<Rightarrow> string \<Rightarrow> (int \<Rightarrow> db \<Rightarrow> response \<times> db) \<Rightarrow> int \<Rightarrow> (string \<times> int) list \<Rightarrow> db \<Rightarrow> response \<times> db" where
  "path_operation path_name param handler path_value query d =
    (case (if param = path_name then Some path_value else map_of query param) of
       None \<Rightarrow> ((422, RequestValidationError), d)
     | Some v \<Rightarrow> handler v d)"

text \<open>
  \<^verbatim>\<open>@user_router.get("/{user_id}")\<close> on \<^verbatim>\<open>get_user_by_id(user_id: int)\<close>, and the three
  delete routes, each \<^verbatim>\<open>@..._router.delete("/{id}")\<close> on a handler whose parameter is
  called \<^verbatim>\<open>user_id\<close>, \<^verbatim>\<open>item_id\<close> and \<^verbatim>\<open>tag_id\<close>.
\<close>

definition GET_users :: "int \<Rightarrow> (string \<times> int) list \<Rightarrow> db \<Rightarrow> response \<times> db" where
  "GET_users = path_operation ''user_id'' ''user_id'' (\<lambda>user_id d. (get_user_by_id user_id d, d))"

definition DELETE_users :: "int \<Rightarrow> (string \<times> int) list \<Rightarrow> db \<Rightarrow> response \<times> db" where
  "DELETE_users = path_operation ''id'' ''user_id'' delete_user"

definition DELETE_items :: "int \<Rightarrow> (string \<times> int) list \<Rightarrow> db \<Rightarrow> response \<times> db" where
  "DELETE_items = path_operation ''id'' ''item_id'' delete_item"

definition DELETE_tags :: "int \<Rightarrow> (string \<times> int) list \<Rightarrow> db \<Rightarrow> response \<times> db" where
  "DELETE_tags = path_operation ''id'' ''tag_id'' delete_tag"

section \<open>Example databases\<close>

text \<open>One user who owns one item and one tag, not linked; foreign keys as the engine leaves them.\<close>

definition db1 :: db where
  "db1 = \<lparr>users = [\<lparr>u_id = 1, u_email = ''a@example.com'', u_display_name = ''A'', u_created_at = 0\<rparr>],
          items = [\<lparr>i_id = 1, i_user_id = 1, i_title = ''T'', i_kind = ''book'', i_status = ''reading'',
                    i_priority = ''high'', i_notes = None, i_created_at = 0, i_updated_at = None\<rparr>],
          tags = [\<lparr>t_id = 1, t_user_id = 1, t_name = ''work''\<rparr>],
          item_tag = [], seq_users = 1, seq_items = 1, seq_tags = 1, foreign_keys = False\<rparr>"

text \<open>The same with the item and the tag linked.\<close>

definition db2 :: db where
  "db2 = db1\<lparr>item_tag := [(1, 1)]\<rparr>"

text \<open>A database with the tables created and nothing in them.\<close>

definition db_empty :: db where
  "db_empty = \<lparr>users = [], items = [], tags = [], item_tag = [],
               seq_users = 0, seq_items = 0, seq_tags = 0, foreign_keys = False\<rparr>"

definition clock0 :: seed_clock where
  "clock0 = \<lparr>now_user1 = 100, now_user2 = 100, utcnow_item1 = 101, utcnow_item2 = 102, utcnow_item3 = 103\<rparr>"

text \<open>Two users and nothing else.\<close>

definition db3 :: db where
  "db3 = \<lparr>users = [\<lparr>u_id = 1, u_email = ''a@example.com'', u_display_name = ''A'', u_created_at = 0\<rparr>,
                    \<lparr>u_id = 2, u_email = ''b@example.com'', u_display_name = ''B'', u_created_at = 0\<rparr>],
          items = [], tags = [], item_tag = [],
          seq_users = 2, seq_items = 0, seq_tags = 0, foreign_keys = False\<rparr>"





section \<open>Verified properties\<close>

subsection \<open>Fetching by id\<close>

lemma get_model_by_id_Some:
  "get_model_by_id k f rows = Some r \<Longrightarrow> r \<in> set rows \<and> f r = k"
  unfolding get_model_by_id_def by (induction rows) (auto split: if_splits)

lemma get_model_by_id_None:
  "get_model_by_id k f rows = None \<longleftrightarrow> k \<notin> f ` set rows"
  unfolding get_model_by_id_def by (auto simp: find_None_iff)

lemma get_model_by_id_present:
  "k \<in> f ` set rows \<Longrightarrow> \<exists>r. get_model_by_id k f rows = Some r"
  using get_model_by_id_None [of k f rows] by (cases "get_model_by_id k f rows") auto

subsection \<open>Linking and unlinking\<close>

lemma add_tag_to_item_existing:
  assumes "it \<in> set (items d)" "t \<in> set (tags d)"
  shows "add_tag_to_item it t d =
           (if (i_id it, t_id t) \<in> set (item_tag d) then Inl IntegrityError
            else Inr (d\<lparr>item_tag := item_tag d @ [(i_id it, t_id t)]\<rparr>))"
  using assms unfolding add_tag_to_item_def insert_item_tag_def by auto

lemma remove_tag_from_item_eq:
  "remove_tag_from_item it t d = d\<lparr>item_tag := filter (\<lambda>p. p \<noteq> (i_id it, t_id t)) (item_tag d)\<rparr>"
proof -
  have f: "(\<lambda>(iid, tid). \<not> (iid = i_id it \<and> tid = t_id t)) = (\<lambda>p. p \<noteq> (i_id it, t_id t))"
    by auto
  show ?thesis unfolding remove_tag_from_item_def f ..
qed

lemma link_tag_item_existing:
  assumes "get_model_by_id tag_id t_id (tags d) = Some t"
      and "get_model_by_id item_id i_id (items d) = Some it"
  shows "link_tag_item tag_id item_id d =
           (if (item_id, tag_id) \<in> set (item_tag d) then ((400, Detail ''Item already exists''), d)
            else ((200, ItemWithTagsSchema (joinedload (d\<lparr>item_tag := item_tag d @ [(item_id, tag_id)]\<rparr>) it)),
                  d\<lparr>item_tag := item_tag d @ [(item_id, tag_id)]\<rparr>))"
proof -
  from assms have m: "t \<in> set (tags d)" "t_id t = tag_id" "it \<in> set (items d)" "i_id it = item_id"
    using get_model_by_id_Some by fastforce+
  show ?thesis
    using assms m by (simp add: link_tag_item_def add_tag_to_item_existing refetch_item_def)
qed

lemma unlink_tag_item_existing:
  assumes "get_model_by_id tag_id t_id (tags d) = Some t"
      and "get_model_by_id item_id i_id (items d) = Some it"
  shows "unlink_tag_item tag_id item_id d =
           ((200, ItemWithTagsSchema (joinedload (d\<lparr>item_tag := filter (\<lambda>p. p \<noteq> (item_id, tag_id)) (item_tag d)\<rparr>) it)),
            d\<lparr>item_tag := filter (\<lambda>p. p \<noteq> (item_id, tag_id)) (item_tag d)\<rparr>)"
proof -
  from assms have m: "t_id t = tag_id" "i_id it = item_id"
    using get_model_by_id_Some by fastforce+
  show ?thesis
    using assms m by (simp add: unlink_tag_item_def remove_tag_from_item_eq refetch_item_def Let_def)
qed

text \<open>
  Claim C7. For a tag and an item that both exist: linking answers 200 and adds the pair
  when the pair is absent; linking a pair that is present answers 400 with the detail
  "Item already exists" and leaves the database as it was; unlinking answers 200 and
  removes the pair, after which linking the same pair answers 200 again and the pair is
  back.
\<close>

theorem link_idempotency_boundary:
  assumes "tag_id \<in> t_id ` set (tags d)" and "item_id \<in> i_id ` set (items d)"
  shows "((item_id, tag_id) \<notin> set (item_tag d) \<longrightarrow>
            fst (fst (link_tag_item tag_id item_id d)) = 200
          \<and> set (item_tag (snd (link_tag_item tag_id item_id d))) = insert (item_id, tag_id) (set (item_tag d)))
       \<and> ((item_id, tag_id) \<in> set (item_tag d) \<longrightarrow>
            link_tag_item tag_id item_id d = ((400, Detail ''Item already exists''), d))
       \<and> fst (fst (unlink_tag_item tag_id item_id d)) = 200
       \<and> set (item_tag (snd (unlink_tag_item tag_id item_id d))) = set (item_tag d) - {(item_id, tag_id)}
       \<and> fst (fst (link_tag_item tag_id item_id (snd (unlink_tag_item tag_id item_id d)))) = 200
       \<and> (item_id, tag_id) \<in> set (item_tag (snd (link_tag_item tag_id item_id (snd (unlink_tag_item tag_id item_id d)))))"
proof -
  from assms(1) obtain t where gt: "get_model_by_id tag_id t_id (tags d) = Some t"
    using get_model_by_id_present [of tag_id t_id "tags d"] by auto
  from assms(2) obtain it where gi: "get_model_by_id item_id i_id (items d) = Some it"
    using get_model_by_id_present [of item_id i_id "items d"] by auto
  note g = gt gi
  define d2 where "d2 = d\<lparr>item_tag := filter (\<lambda>p. p \<noteq> (item_id, tag_id)) (item_tag d)\<rparr>"
  have u: "unlink_tag_item tag_id item_id d = ((200, ItemWithTagsSchema (joinedload d2 it)), d2)"
    unfolding d2_def by (rule unlink_tag_item_existing [OF g])
  have g2: "get_model_by_id tag_id t_id (tags d2) = Some t" "get_model_by_id item_id i_id (items d2) = Some it"
    using g by (simp_all add: d2_def)
  have n2: "(item_id, tag_id) \<notin> set (item_tag d2)" by (simp add: d2_def)
  have s2: "set (item_tag d2) = set (item_tag d) - {(item_id, tag_id)}" by (auto simp: d2_def)
  show ?thesis
    using link_tag_item_existing [OF g] link_tag_item_existing [OF g2] n2 s2 u
    by simp
qed

theorem link_idempotency_boundary_witness:
  "(1::int) \<in> t_id ` set (tags db1) \<and> (1::int) \<in> i_id ` set (items db1)
   \<and> (1, 1) \<notin> set (item_tag db1)
   \<and> fst (fst (link_tag_item 1 1 db1)) = 200
   \<and> set (item_tag (snd (link_tag_item 1 1 db1))) = {(1, 1)}
   \<and> (1, 1) \<in> set (item_tag (snd (link_tag_item 1 1 db1)))
   \<and> link_tag_item 1 1 (snd (link_tag_item 1 1 db1)) = ((400, Detail ''Item already exists''), snd (link_tag_item 1 1 db1))"
proof -
  have h1: "(1::int) \<in> t_id ` set (tags db1)" by (simp add: db1_def)
  have h2: "(1::int) \<in> i_id ` set (items db1)" by (simp add: db1_def)
  have h3: "(1, 1) \<notin> set (item_tag db1)" by (simp add: db1_def)
  define d1 where "d1 = snd (link_tag_item 1 1 db1)"
  have a: "fst (fst (link_tag_item 1 1 db1)) = 200 \<and> set (item_tag d1) = {(1, 1)}"
    using link_idempotency_boundary [OF h1 h2] h3 by (simp add: d1_def db1_def)
  have t1: "tags d1 = tags db1" "items d1 = items db1"
    by (simp_all add: d1_def db1_def link_tag_item_def get_model_by_id_def add_tag_to_item_def insert_item_tag_def
          split: sum.splits error.splits)
  have k1: "(1::int) \<in> t_id ` set (tags d1)" using h1 t1 by simp
  have k2: "(1::int) \<in> i_id ` set (items d1)" using h2 t1 by simp
  have b: "link_tag_item 1 1 d1 = ((400, Detail ''Item already exists''), d1)"
    using link_idempotency_boundary [OF k1 k2] a by simp
  show ?thesis using h1 h2 h3 a b unfolding d1_def by simp
qed

text \<open>
  Claim C10. A successful \<open>add_tag_to_item\<close> leaves the users, items and tags tables as
  they were, leaves every association row other than the pair of the item's id and the
  tag's id as it was, and has added that pair; \<open>remove_tag_from_item\<close> leaves the three
  tables and every other association row as they were and has removed that pair.
\<close>

theorem link_unlink_frame:
  "(\<forall>d'. add_tag_to_item it t d = Inr d' \<longrightarrow>
       users d' = users d \<and> items d' = items d \<and> tags d' = tags d
     \<and> filter (\<lambda>p. p \<noteq> (i_id it, t_id t)) (item_tag d') = filter (\<lambda>p. p \<noteq> (i_id it, t_id t)) (item_tag d)
     \<and> set (item_tag d') = insert (i_id it, t_id t) (set (item_tag d)))
   \<and> (let d' = remove_tag_from_item it t d in
       users d' = users d \<and> items d' = items d \<and> tags d' = tags d
     \<and> filter (\<lambda>p. p \<noteq> (i_id it, t_id t)) (item_tag d') = filter (\<lambda>p. p \<noteq> (i_id it, t_id t)) (item_tag d)
     \<and> set (item_tag d') = set (item_tag d) - {(i_id it, t_id t)})"
  unfolding add_tag_to_item_def insert_item_tag_def remove_tag_from_item_eq Let_def
  by (auto split: if_splits)

theorem link_unlink_frame_witness:
  "add_tag_to_item (hd (items db1)) (hd (tags db1)) db1 = Inr (db1\<lparr>item_tag := [(1, 1)]\<rparr>)
   \<and> users (db1\<lparr>item_tag := [(1, 1)]\<rparr>) = users db1
   \<and> items (db1\<lparr>item_tag := [(1, 1)]\<rparr>) = items db1
   \<and> tags (db1\<lparr>item_tag := [(1, 1)]\<rparr>) = tags db1
   \<and> set (item_tag (db1\<lparr>item_tag := [(1, 1)]\<rparr>)) = insert (1, 1) (set (item_tag db1))"
proof -
  have h: "add_tag_to_item (hd (items db1)) (hd (tags db1)) db1 = Inr (db1\<lparr>item_tag := [(1, 1)]\<rparr>)"
    unfolding db1_def add_tag_to_item_def insert_item_tag_def by simp
  have i: "(i_id (hd (items db1)), t_id (hd (tags db1))) = (1, 1)"
    unfolding db1_def by simp
  note f = link_unlink_frame [of "hd (items db1)" "hd (tags db1)" db1, THEN conjunct1, rule_format, OF h]
  from f h show ?thesis unfolding i by blast
qed

subsection \<open>Records that are not there\<close>



subsection \<open>Tag names are unique per user\<close>

lemma create_tag_existing_user:
  assumes "user_id \<in> u_id ` set (users d)"
  shows "create_tag user_id tg d =
           (if \<exists>t \<in> set (tags d). t_user_id t = user_id \<and> t_name t = name tg
            then ((400, Detail ''Tag already exists''), d)
            else ((200, TagEcho tg),
                  d\<lparr>tags := tags d @ [\<lparr>t_id = next_id (seq_tags d) (map t_id (tags d)),
                                         t_user_id = user_id, t_name = name tg\<rparr>],
                    seq_tags := next_id (seq_tags d) (map t_id (tags d))\<rparr>))"
proof -
  from assms obtain u where g: "get_model_by_id user_id u_id (users d) = Some u"
    using get_model_by_id_present [of user_id u_id "users d"] by auto
  from assms have e: "\<exists>u \<in> set (users d). u_id u = user_id" by auto
  show ?thesis
    using g e by (simp add: create_tag_def create_model_Tag_def insert_tag_def Let_def)
qed

text \<open>
  Claim C6. For two different existing users a and b: creating a tag for a answers 400
  with the detail "Tag already exists" exactly when a already has a tag of that name, and
  then leaves the database as it was. When neither has a tag of that name, creating it
  for a and then for b both answer 200, both tags are in the table afterwards, and
  creating it for a once more answers 400 "Tag already exists" and changes nothing.
\<close>
theorem tag_name_scoping:
  assumes "a \<in> u_id ` set (users d)" and "b \<in> u_id ` set (users d)" and "a \<noteq> b"
  shows "(fst (create_tag a tg d) = (400, Detail ''Tag already exists'')
            \<longleftrightarrow> (\<exists>t \<in> set (tags d). t_user_id t = a \<and> t_name t = name tg))
       \<and> (fst (create_tag a tg d) = (400, Detail ''Tag already exists'') \<longrightarrow> snd (create_tag a tg d) = d)
       \<and> (\<not> (\<exists>t \<in> set (tags d). (t_user_id t = a \<or> t_user_id t = b) \<and> t_name t = name tg) \<longrightarrow>
            fst (create_tag a tg d) = (200, TagEcho tg)
          \<and> fst (create_tag b tg (snd (create_tag a tg d))) = (200, TagEcho tg)
          \<and> create_tag a tg (snd (create_tag b tg (snd (create_tag a tg d))))
              = ((400, Detail ''Tag already exists''), snd (create_tag b tg (snd (create_tag a tg d))))
          \<and> map (\<lambda>t. (t_user_id t, t_name t)) (tags (snd (create_tag b tg (snd (create_tag a tg d)))))
              = map (\<lambda>t. (t_user_id t, t_name t)) (tags d) @ [(a, name tg), (b, name tg)])"
proof (intro conjI impI)
  show "(fst (create_tag a tg d) = (400, Detail ''Tag already exists''))
          = (\<exists>t \<in> set (tags d). t_user_id t = a \<and> t_name t = name tg)"
    by (simp add: create_tag_existing_user [OF assms(1)])
next
  assume "fst (create_tag a tg d) = (400, Detail ''Tag already exists'')"
  then show "snd (create_tag a tg d) = d"
    by (cases "\<exists>t \<in> set (tags d). t_user_id t = a \<and> t_name t = name tg")
       (simp_all add: create_tag_existing_user [OF assms(1)])
next
  assume n: "\<not> (\<exists>t \<in> set (tags d). (t_user_id t = a \<or> t_user_id t = b) \<and> t_name t = name tg)"
  define d1 where "d1 = snd (create_tag a tg d)"
  define d2 where "d2 = snd (create_tag b tg d1)"
  from n have na: "\<not> (\<exists>t \<in> set (tags d). t_user_id t = a \<and> t_name t = name tg)" by auto
  have c1: "create_tag a tg d = ((200, TagEcho tg), d1)"
    unfolding d1_def using na by (simp add: create_tag_existing_user [OF assms(1)])
  have t1: "tags d1 = tags d @ [\<lparr>t_id = next_id (seq_tags d) (map t_id (tags d)), t_user_id = a, t_name = name tg\<rparr>]"
    and u1: "users d1 = users d"
    unfolding d1_def using na by (simp_all add: create_tag_existing_user [OF assms(1)])
  have b1: "b \<in> u_id ` set (users d1)" and a1: "a \<in> u_id ` set (users d1)" using assms u1 by simp_all
  have nb: "\<not> (\<exists>t \<in> set (tags d1). t_user_id t = b \<and> t_name t = name tg)"
    using n assms(3) by (auto simp: t1)
  have c2: "create_tag b tg d1 = ((200, TagEcho tg), d2)"
    unfolding d2_def using nb by (simp add: create_tag_existing_user [OF b1])
  have t2: "tags d2 = tags d1 @ [\<lparr>t_id = next_id (seq_tags d1) (map t_id (tags d1)), t_user_id = b, t_name = name tg\<rparr>]"
    and u2: "users d2 = users d1"
    unfolding d2_def using nb by (simp_all add: create_tag_existing_user [OF b1])
  have a2: "a \<in> u_id ` set (users d2)" using a1 u2 by simp
  have ya: "\<exists>t \<in> set (tags d2). t_user_id t = a \<and> t_name t = name tg"
    by (simp add: t2 t1)
  have c3: "create_tag a tg d2 = ((400, Detail ''Tag already exists''), d2)"
    using ya by (simp add: create_tag_existing_user [OF a2])
  show "fst (create_tag a tg d) = (200, TagEcho tg)" using c1 by simp
  show "fst (create_tag b tg (snd (create_tag a tg d))) = (200, TagEcho tg)"
    using c2 by (simp add: d1_def)
  show "create_tag a tg (snd (create_tag b tg (snd (create_tag a tg d))))
          = ((400, Detail ''Tag already exists''), snd (create_tag b tg (snd (create_tag a tg d))))"
    using c3 by (simp add: d2_def d1_def)
  show "map (\<lambda>t. (t_user_id t, t_name t)) (tags (snd (create_tag b tg (snd (create_tag a tg d)))))
              = map (\<lambda>t. (t_user_id t, t_name t)) (tags d) @ [(a, name tg), (b, name tg)]"
    using t1 t2 by (simp add: d2_def d1_def)
qed


theorem tag_name_scoping_witness:
  "(1::int) \<in> u_id ` set (users db3) \<and> (2::int) \<in> u_id ` set (users db3) \<and> (1::int) \<noteq> 2
   \<and> \<not> (\<exists>t \<in> set (tags db3). (t_user_id t = 1 \<or> t_user_id t = 2) \<and> t_name t = name \<lparr>name = ''work''\<rparr>)
   \<and> fst (create_tag 1 \<lparr>name = ''work''\<rparr> db3) = (200, TagEcho \<lparr>name = ''work''\<rparr>)
   \<and> fst (create_tag 2 \<lparr>name = ''work''\<rparr> (snd (create_tag 1 \<lparr>name = ''work''\<rparr> db3))) = (200, TagEcho \<lparr>name = ''work''\<rparr>)
   \<and> fst (create_tag 1 \<lparr>name = ''work''\<rparr> (snd (create_tag 2 \<lparr>name = ''work''\<rparr> (snd (create_tag 1 \<lparr>name = ''work''\<rparr> db3)))))
        = (400, Detail ''Tag already exists'')"
proof -
  have h1: "(1::int) \<in> u_id ` set (users db3)" by (simp add: db3_def)
  have h2: "(2::int) \<in> u_id ` set (users db3)" by (simp add: db3_def)
  have h3: "(1::int) \<noteq> 2" by simp
  have h4: "\<not> (\<exists>t \<in> set (tags db3). (t_user_id t = 1 \<or> t_user_id t = 2) \<and> t_name t = name \<lparr>name = ''work''\<rparr>)"
    by (simp add: db3_def)
  note f = tag_name_scoping [OF h1 h2 h3, of "\<lparr>name = ''work''\<rparr>", THEN conjunct2, THEN conjunct2, rule_format, OF h4]
  from f h1 h2 h3 h4 show ?thesis by simp
qed

subsection \<open>The seed data\<close>

lemma seed_users_empty:
  assumes "users d = []"
  shows "seed_users ck d = Inr ((seq_users d + 1, seq_users d + 2),
           d\<lparr>users := [\<lparr>u_id = seq_users d + 1, u_email = ''alice@example.com'', u_display_name = ''Alice'',
                          u_created_at = now_user1 ck\<rparr>,
                        \<lparr>u_id = seq_users d + 2, u_email = ''bob@example.com'', u_display_name = ''Bob'',
                          u_created_at = now_user2 ck\<rparr>],
             seq_users := seq_users d + 2\<rparr>)"
  using assms by (simp add: seed_users_def insert_user_def Let_def next_id_def max_def)

lemma seed_tags_empty:
  assumes "tags d = []" "u1 \<in> u_id ` set (users d)" "u2 \<in> u_id ` set (users d)"
  shows "seed_tags u1 u2 d = Inr ((seq_tags d + 1, seq_tags d + 2, seq_tags d + 3),
           d\<lparr>tags := [\<lparr>t_id = seq_tags d + 1, t_user_id = u1, t_name = ''urgent''\<rparr>,
                       \<lparr>t_id = seq_tags d + 2, t_user_id = u1, t_name = ''work''\<rparr>,
                       \<lparr>t_id = seq_tags d + 3, t_user_id = u2, t_name = ''personal''\<rparr>],
             seq_tags := seq_tags d + 3\<rparr>)"
proof -
  from assms have e: "\<exists>u \<in> set (users d). u_id u = u1" "\<exists>u \<in> set (users d). u_id u = u2" by auto
  show ?thesis
    using assms(1) e
    by (simp add: seed_tags_def insert_tag_def Let_def next_id_def max_def)
qed


lemma seed_items_empty:
  assumes "items d = []" "item_tag d = []"
      and "u1 \<in> u_id ` set (users d)" "u2 \<in> u_id ` set (users d)"
      and "{g1, g2, g3} \<subseteq> t_id ` set (tags d)" "g1 \<noteq> g2"
  shows "seed_items ck u1 u2 (g1, g2, g3) d = Inr
           (d\<lparr>items := [\<lparr>i_id = seq_items d + 1, i_user_id = u1, i_title = ''Finish report'',
                          i_kind = ''book'', i_status = ''reading'', i_priority = ''high'',
                          i_notes = Some ''Due next week'', i_created_at = utcnow_item1 ck,
                          i_updated_at = None\<rparr>,
                        \<lparr>i_id = seq_items d + 2, i_user_id = u1, i_title = ''Buy groceries'',
                          i_kind = ''book'', i_status = ''reading'', i_priority = ''high'',
                          i_notes = Some ''Milk, Bread, Eggs'', i_created_at = utcnow_item2 ck,
                          i_updated_at = None\<rparr>,
                        \<lparr>i_id = seq_items d + 3, i_user_id = u2, i_title = ''Call mom'',
                          i_kind = ''book'', i_status = ''reading'', i_priority = ''high'',
                          i_notes = Some ''Sunday evening'', i_created_at = utcnow_item3 ck,
                          i_updated_at = None\<rparr>],
              seq_items := seq_items d + 3,
              item_tag := [(seq_items d + 1, g1), (seq_items d + 1, g2),
                           (seq_items d + 2, g2), (seq_items d + 3, g3)]\<rparr>)"
proof -
  from assms have e: "\<exists>u \<in> set (users d). u_id u = u1" "\<exists>u \<in> set (users d). u_id u = u2"
     "\<exists>x \<in> set (tags d). t_id x = g1" "\<exists>x \<in> set (tags d). t_id x = g2" "\<exists>x \<in> set (tags d). t_id x = g3"
    by auto
  show ?thesis
    using assms(1,2,6) e
    by (simp add: seed_items_def insert_item_def insert_item_tag_def Let_def next_id_def max_def)
qed


lemma create_seed_data_empty:
  assumes "users d = []" "items d = []" "tags d = []" "item_tag d = []"
  shows "create_seed_data ck d = (None,
     d\<lparr>users := [\<lparr>u_id = seq_users d + 1, u_email = ''alice@example.com'', u_display_name = ''Alice'',
                    u_created_at = now_user1 ck\<rparr>,
                  \<lparr>u_id = seq_users d + 2, u_email = ''bob@example.com'', u_display_name = ''Bob'',
                    u_created_at = now_user2 ck\<rparr>],
       seq_users := seq_users d + 2,
       tags := [\<lparr>t_id = seq_tags d + 1, t_user_id = seq_users d + 1, t_name = ''urgent''\<rparr>,
                 \<lparr>t_id = seq_tags d + 2, t_user_id = seq_users d + 1, t_name = ''work''\<rparr>,
                 \<lparr>t_id = seq_tags d + 3, t_user_id = seq_users d + 2, t_name = ''personal''\<rparr>],
       seq_tags := seq_tags d + 3,
       items := [\<lparr>i_id = seq_items d + 1, i_user_id = seq_users d + 1, i_title = ''Finish report'',
                    i_kind = ''book'', i_status = ''reading'', i_priority = ''high'',
                    i_notes = Some ''Due next week'', i_created_at = utcnow_item1 ck,
                    i_updated_at = None\<rparr>,
                  \<lparr>i_id = seq_items d + 2, i_user_id = seq_users d + 1, i_title = ''Buy groceries'',
                    i_kind = ''book'', i_status = ''reading'', i_priority = ''high'',
                    i_notes = Some ''Milk, Bread, Eggs'', i_created_at = utcnow_item2 ck,
                    i_updated_at = None\<rparr>,
                  \<lparr>i_id = seq_items d + 3, i_user_id = seq_users d + 2, i_title = ''Call mom'',
                    i_kind = ''book'', i_status = ''reading'', i_priority = ''high'',
                    i_notes = Some ''Sunday evening'', i_created_at = utcnow_item3 ck,
                    i_updated_at = None\<rparr>],
       seq_items := seq_items d + 3,
       item_tag := [(seq_items d + 1, seq_tags d + 1), (seq_items d + 1, seq_tags d + 2),
                    (seq_items d + 2, seq_tags d + 2), (seq_items d + 3, seq_tags d + 3)]\<rparr>)"
proof -
  define d1 where "d1 = d\<lparr>users := [\<lparr>u_id = seq_users d + 1, u_email = ''alice@example.com'', u_display_name = ''Alice'',
                          u_created_at = now_user1 ck\<rparr>,
                        \<lparr>u_id = seq_users d + 2, u_email = ''bob@example.com'', u_display_name = ''Bob'',
                          u_created_at = now_user2 ck\<rparr>],
             seq_users := seq_users d + 2\<rparr>"
  have s1: "seed_users ck d = Inr ((seq_users d + 1, seq_users d + 2), d1)"
    unfolding d1_def by (rule seed_users_empty [OF assms(1)])
  define d2 where "d2 = d1\<lparr>tags := [\<lparr>t_id = seq_tags d1 + 1, t_user_id = seq_users d + 1, t_name = ''urgent''\<rparr>,
                       \<lparr>t_id = seq_tags d1 + 2, t_user_id = seq_users d + 1, t_name = ''work''\<rparr>,
                       \<lparr>t_id = seq_tags d1 + 3, t_user_id = seq_users d + 2, t_name = ''personal''\<rparr>],
             seq_tags := seq_tags d1 + 3\<rparr>"
  have s2: "seed_tags (seq_users d + 1) (seq_users d + 2) d1
              = Inr ((seq_tags d1 + 1, seq_tags d1 + 2, seq_tags d1 + 3), d2)"
    unfolding d2_def
    by (rule seed_tags_empty) (simp_all add: d1_def assms)
  have s3: "seed_items ck (seq_users d + 1) (seq_users d + 2) (seq_tags d1 + 1, seq_tags d1 + 2, seq_tags d1 + 3) d2
     = Inr (d2\<lparr>items := [\<lparr>i_id = seq_items d2 + 1, i_user_id = seq_users d + 1, i_title = ''Finish report'',
                          i_kind = ''book'', i_status = ''reading'', i_priority = ''high'',
                          i_notes = Some ''Due next week'', i_created_at = utcnow_item1 ck,
                          i_updated_at = None\<rparr>,
                        \<lparr>i_id = seq_items d2 + 2, i_user_id = seq_users d + 1, i_title = ''Buy groceries'',
                          i_kind = ''book'', i_status = ''reading'', i_priority = ''high'',
                          i_notes = Some ''Milk, Bread, Eggs'', i_created_at = utcnow_item2 ck,
                          i_updated_at = None\<rparr>,
                        \<lparr>i_id = seq_items d2 + 3, i_user_id = seq_users d + 2, i_title = ''Call mom'',
                          i_kind = ''book'', i_status = ''reading'', i_priority = ''high'',
                          i_notes = Some ''Sunday evening'', i_created_at = utcnow_item3 ck,
                          i_updated_at = None\<rparr>],
              seq_items := seq_items d2 + 3,
              item_tag := [(seq_items d2 + 1, seq_tags d1 + 1), (seq_items d2 + 1, seq_tags d1 + 2),
                           (seq_items d2 + 2, seq_tags d1 + 2), (seq_items d2 + 3, seq_tags d1 + 3)]\<rparr>)"
    by (rule seed_items_empty) (simp_all add: d2_def d1_def assms)
  show ?thesis
    unfolding create_seed_data_def s1 sum.case prod.case s2 s3
    by (simp add: d2_def d1_def)
qed

lemma create_seed_data_again:
  assumes "\<exists>u \<in> set (users d). u_email u = ''alice@example.com''"
  shows "create_seed_data ck d = (Some IntegrityError, d)"
  using assms by (simp add: create_seed_data_def seed_users_def insert_user_def)

text \<open>
  Claim C5. On a database whose four tables are empty, the seed route answers 200 with
  the string "success" and leaves exactly the two users Alice and Bob with their
  emails, the tags urgent and work of the first user and personal of the second, the
  three items (kind book, status reading, priority high, with their titles and notes),
  and the links item 1 to urgent and work, item 2 to work, item 3 to personal. Run once
  more on the result, at any time, it answers 400 with the detail "Item already exists"
  and leaves the database as it was: no user, tag, item or link is added.
\<close>
theorem seed_idempotency_failure:
  assumes "users d = []" "items d = []" "tags d = []" "item_tag d = []"
  shows "fst (create_data_for_tests ck d) = (200, Str ''success'')
     \<and> (let d' = snd (create_data_for_tests ck d) in
         users d' = [\<lparr>u_id = seq_users d + 1, u_email = ''alice@example.com'', u_display_name = ''Alice'',
                      u_created_at = now_user1 ck\<rparr>,
                    \<lparr>u_id = seq_users d + 2, u_email = ''bob@example.com'', u_display_name = ''Bob'',
                      u_created_at = now_user2 ck\<rparr>]
       \<and> tags d' = [\<lparr>t_id = seq_tags d + 1, t_user_id = seq_users d + 1, t_name = ''urgent''\<rparr>,
                     \<lparr>t_id = seq_tags d + 2, t_user_id = seq_users d + 1, t_name = ''work''\<rparr>,
                     \<lparr>t_id = seq_tags d + 3, t_user_id = seq_users d + 2, t_name = ''personal''\<rparr>]
       \<and> items d' = [\<lparr>i_id = seq_items d + 1, i_user_id = seq_users d + 1, i_title = ''Finish report'',
                        i_kind = ItemKind_value ItemKind_book, i_status = ItemStatus_value ItemStatus_reading,
                        i_priority = ItemPriority_value ItemPriority_high,
                        i_notes = Some ''Due next week'', i_created_at = utcnow_item1 ck,
                        i_updated_at = None\<rparr>,
                      \<lparr>i_id = seq_items d + 2, i_user_id = seq_users d + 1, i_title = ''Buy groceries'',
                        i_kind = ItemKind_value ItemKind_book, i_status = ItemStatus_value ItemStatus_reading,
                        i_priority = ItemPriority_value ItemPriority_high,
                        i_notes = Some ''Milk, Bread, Eggs'', i_created_at = utcnow_item2 ck,
                        i_updated_at = None\<rparr>,
                      \<lparr>i_id = seq_items d + 3, i_user_id = seq_users d + 2, i_title = ''Call mom'',
                        i_kind = ItemKind_value ItemKind_book, i_status = ItemStatus_value ItemStatus_reading,
                        i_priority = ItemPriority_value ItemPriority_high,
                        i_notes = Some ''Sunday evening'', i_created_at = utcnow_item3 ck,
                        i_updated_at = None\<rparr>]
       \<and> set (item_tag d') = {(seq_items d + 1, seq_tags d + 1), (seq_items d + 1, seq_tags d + 2),
                                (seq_items d + 2, seq_tags d + 2), (seq_items d + 3, seq_tags d + 3)}
       \<and> create_data_for_tests ck' d' = ((400, Detail ''Item already exists''), d'))"
proof -
  note c = create_seed_data_empty [OF assms, of ck]
  have r: "create_data_for_tests ck d = ((200, Str ''success''), snd (create_seed_data ck d))"
    unfolding create_data_for_tests_def c by simp
  have a: "\<exists>u \<in> set (users (snd (create_seed_data ck d))). u_email u = ''alice@example.com''"
    unfolding c by simp
  have again: "create_data_for_tests ck' (snd (create_seed_data ck d))
                 = ((400, Detail ''Item already exists''), snd (create_seed_data ck d))"
    unfolding create_data_for_tests_def create_seed_data_again [OF a] by simp
  show ?thesis
    unfolding r Let_def fst_conv snd_conv again
    unfolding c by simp
qed

theorem seed_idempotency_failure_witness:
  "users db_empty = [] \<and> items db_empty = [] \<and> tags db_empty = [] \<and> item_tag db_empty = []
   \<and> fst (create_data_for_tests clock0 db_empty) = (200, Str ''success'')
   \<and> map u_email (users (snd (create_data_for_tests clock0 db_empty))) = [''alice@example.com'', ''bob@example.com'']
   \<and> map t_name (tags (snd (create_data_for_tests clock0 db_empty))) = [''urgent'', ''work'', ''personal'']
   \<and> map i_title (items (snd (create_data_for_tests clock0 db_empty))) = [''Finish report'', ''Buy groceries'', ''Call mom'']
   \<and> set (item_tag (snd (create_data_for_tests clock0 db_empty))) = {(1, 1), (1, 2), (2, 2), (3, 3)}
   \<and> fst (create_data_for_tests clock0 (snd (create_data_for_tests clock0 db_empty))) = (400, Detail ''Item already exists'')"
proof -
  have h: "users db_empty = []" "items db_empty = []" "tags db_empty = []" "item_tag db_empty = []"
    by (simp_all add: db_empty_def)
  have s: "seq_users db_empty = 0" "seq_tags db_empty = 0" "seq_items db_empty = 0"
    by (simp_all add: db_empty_def)
  from seed_idempotency_failure [OF h, of clock0 clock0] h show ?thesis
    unfolding Let_def s by simp
qed

subsection \<open>Deleting\<close>

lemma filter_absent_id: "k \<notin> f ` set rows \<Longrightarrow> filter (\<lambda>r. f r \<noteq> k) rows = rows"
  by (induction rows) auto

lemma delete_absent:
  "user_id \<notin> u_id ` set (users d) \<Longrightarrow> delete_user user_id d = ((204, Null), d)"
  "item_id \<notin> i_id ` set (items d) \<Longrightarrow> delete_item item_id d = ((204, Null), d)"
  "tag_id \<notin> t_id ` set (tags d) \<Longrightarrow> delete_tag tag_id d = ((204, Null), d)"
  by (auto simp: delete_user_def delete_item_def delete_tag_def delete_model_by_id_def filter_absent_id)

lemma delete_handler_removes:
  "get_model_by_id item_id i_id (items (snd (delete_item item_id d))) = None"
  "get_model_by_id tag_id t_id (tags (snd (delete_tag tag_id d))) = None"
  "fst (delete_user user_id d) = (204, Null) \<Longrightarrow>
     get_model_by_id user_id u_id (users (snd (delete_user user_id d))) = None"
  by (auto simp: delete_user_def delete_item_def delete_tag_def delete_model_by_id_def
        get_model_by_id_None split: if_splits)

lemma delete_handler_status:
  "fst (delete_item item_id d) = (204, Null)"
  "fst (delete_tag tag_id d) = (204, Null)"
  "\<not> foreign_keys d \<Longrightarrow> fst (delete_user user_id d) = (204, Null)"
  by (simp_all add: delete_user_def delete_item_def delete_tag_def delete_model_by_id_def)

text \<open>
  Claim C1. Deleting a user through \<open>delete_user\<close> never touches the items, tags and
  item-tag tables: whatever the user id and the database, they are afterwards what they
  were. On the database with user 1, their item 1 and their tag 1, linked, the delete
  answers 204 and the user is gone, yet fetching item 1 and tag 1 still answers 200 and
  the association row is still there; with foreign keys enforced the same delete is
  refused with 400 and nothing is deleted at all.
\<close>
theorem delete_user_keeps_items_and_tags:
  "items (snd (delete_user user_id d)) = items d
   \<and> tags (snd (delete_user user_id d)) = tags d
   \<and> item_tag (snd (delete_user user_id d)) = item_tag d
   \<and> delete_user 1 db2 = ((204, Null), db2\<lparr>users := []\<rparr>)
   \<and> map i_user_id (items db2) = [1] \<and> map t_user_id (tags db2) = [1]
   \<and> get_item_by_id 1 (snd (delete_user 1 db2)) = (200, ItemWithTagsSchema (hd (items db2), tags db2))
   \<and> get_tag_by_id 1 (snd (delete_user 1 db2)) = (200, TagWithIdSchema (hd (tags db2)))
   \<and> item_tag (snd (delete_user 1 db2)) = [(1, 1)]
   \<and> delete_user 1 (db2\<lparr>foreign_keys := True\<rparr>)
        = ((400, Detail ''IntegrityError''), db2\<lparr>foreign_keys := True\<rparr>)"
proof -
  have g: "items (snd (delete_user user_id d)) = items d
     \<and> tags (snd (delete_user user_id d)) = tags d
     \<and> item_tag (snd (delete_user user_id d)) = item_tag d"
    by (simp add: delete_user_def delete_model_by_id_def)
  have e1: "delete_user 1 db2 = ((204, Null), db2\<lparr>users := []\<rparr>)"
    by (simp add: delete_user_def delete_model_by_id_def db2_def db1_def)
  have e2: "get_item_by_id 1 (db2\<lparr>users := []\<rparr>) = (200, ItemWithTagsSchema (hd (items db2), tags db2))"
    by (simp add: get_item_by_id_def get_model_by_id_def joinedload_def item_tags_def db2_def db1_def)
  have e3: "get_tag_by_id 1 (db2\<lparr>users := []\<rparr>) = (200, TagWithIdSchema (hd (tags db2)))"
    by (simp add: get_tag_by_id_def get_model_by_id_def db2_def db1_def)
  have e4: "item_tag (db2\<lparr>users := []\<rparr>) = [(1, 1)]"
    by (simp add: db2_def)
  have e5: "delete_user 1 (db2\<lparr>foreign_keys := True\<rparr>)
        = ((400, Detail ''IntegrityError''), db2\<lparr>foreign_keys := True\<rparr>)"
    by (simp add: delete_user_def delete_model_by_id_def db2_def db1_def)
  have e6: "map i_user_id (items db2) = [1] \<and> map t_user_id (tags db2) = [1]"
    by (simp add: db2_def db1_def)
  show ?thesis
    unfolding e1 snd_conv e2 e3 e4 e5 using g e6 by simp
qed

lemma path_operation_other_name:
  "param \<noteq> path_name \<Longrightarrow> path_operation path_name param handler path_value [] d
     = ((422, RequestValidationError), d)"
  "param \<noteq> path_name \<Longrightarrow> path_operation path_name param handler path_value [(param, v)] d
     = handler v d"
  by (simp_all add: path_operation_def)

text \<open>
  Claim C2. The three delete routes declare the path parameter \<^verbatim>\<open>id\<close> while their
  handlers take \<^verbatim>\<open>user_id\<close>, \<^verbatim>\<open>item_id\<close> and \<^verbatim>\<open>tag_id\<close>. A delete request that carries
  the id in the path alone is answered 422 and deletes nothing, whatever the id; the
  record deleted is the one named by the query parameter, whatever the path says. The
  route that fetches a user, whose names agree, takes the id from the path. On the
  database with user 1, the request to delete user 1 by path answers 422 and the user is
  still fetched afterwards.
\<close>
theorem delete_routes_ignore_path_id:
  "DELETE_users path_value [] d = ((422, RequestValidationError), d)
   \<and> DELETE_items path_value [] d = ((422, RequestValidationError), d)
   \<and> DELETE_tags path_value [] d = ((422, RequestValidationError), d)
   \<and> DELETE_users path_value [(''user_id'', v)] d = delete_user v d
   \<and> DELETE_items path_value [(''item_id'', v)] d = delete_item v d
   \<and> DELETE_tags path_value [(''tag_id'', v)] d = delete_tag v d
   \<and> GET_users path_value [] d = (get_user_by_id path_value d, d)
   \<and> DELETE_users 1 [] db1 = ((422, RequestValidationError), db1)
   \<and> get_user_by_id 1 (snd (DELETE_users 1 [] db1)) = (200, UserWithIdSchema (hd (users db1)))"
proof -
  have u: "get_user_by_id 1 db1 = (200, UserWithIdSchema (hd (users db1)))"
    by (simp add: get_user_by_id_def get_model_by_id_def db1_def)
  show ?thesis
    using u
    by (simp add: DELETE_users_def DELETE_items_def DELETE_tags_def GET_users_def path_operation_def)
qed

subsection \<open>Pattern matching on the title\<close>

lemma like_percent_only [simp]: "like ''%'' t"
  by (induction t) auto









subsection \<open>The matching items of a search\<close>

lemma set_matching_items:
  "it \<in> set (matching_items a d) \<longleftrightarrow>
     (\<exists>t. (it, t) \<in> set (from_rows a d) \<and> list_all (\<lambda>f. f (it, t)) (filters a))"
  unfolding matching_items_def by force





lemma from_rows_no_tags:
  "\<not> truthy (q_tag_names a) \<Longrightarrow> from_rows a d = map (\<lambda>it. (it, None)) (items d)"
  by (simp add: from_rows_def)

lemma matching_items_default: "set (matching_items default_args d) = set (items d)"
  by (force simp: set_matching_items from_rows_def default_args_def filters_def)





subsection \<open>The tag filter, ordering and paging\<close>




























end
